theory Spec2Isabelle
  imports Complex_Main "HOL-Library.Char_ord" "HOL-Library.List_Lexorder" "HOL-Library.Multiset"
begin

section \<open>Data model\<close>

text \<open>
  The dashboard script \<^verbatim>\<open>app.py\<close> keeps the dataset in a pandas data frame. A data
  frame is modelled as the list of its rows in file order; a cell that pandas holds as
  NaN / NaT (a missing value) is \<open>None\<close>. Text is Latin-1 (the encoding the script reads
  the file with), one \<open>char\<close> per character.

  Numbers: the script works with 64-bit floats. A float that is not NaN is a \<open>num\<close>:
  an infinity or a finite value, the finite value being an exact rational; the rounding
  of finite values to doubles is outside the model. The columns that no computation
  below reads (\<open>Print Length\<close>) and the column \<open>Popularity Score\<close> (a natural
  logarithm) are left out.
\<close>

datatype num = MInf | Fin rat | PInf

instantiation num :: linorder
begin

definition less_eq_num :: "num \<Rightarrow> num \<Rightarrow> bool" where
  "a \<le> b \<longleftrightarrow>
     (case a of
        MInf \<Rightarrow> True
      | Fin x \<Rightarrow> (case b of MInf \<Rightarrow> False | Fin y \<Rightarrow> x \<le> y | PInf \<Rightarrow> True)
      | PInf \<Rightarrow> (case b of MInf \<Rightarrow> False | Fin y \<Rightarrow> False | PInf \<Rightarrow> True))"

definition less_num :: "num \<Rightarrow> num \<Rightarrow> bool" where
  "a < b \<longleftrightarrow> a \<le> b \<and> \<not> b \<le> (a::num)"

instance
  by standard (auto simp: less_eq_num_def less_num_def split: num.splits)

end

record date =
  dt_year :: int
  dt_month :: int
  dt_day :: int

text \<open>A row as \<open>pd.read_csv\<close> delivers it: text cells, the numeric column \<open>reviews count\<close>.\<close>

record raw_row =
  raw_id :: "string option"
  raw_Book_name :: "string option"
  raw_Author :: "string option"
  raw_Genre :: "string option"
  raw_Rating :: "string option"
  raw_reviews_count :: "int option"
  raw_price :: "string option"
  raw_form :: "string option"
  raw_Reading_age :: "string option"
  raw_Publishing_date :: "string option"

text \<open>A row of the cleaned frame that \<open>load_data\<close> returns.\<close>

record book =
  Rank :: int
  Book_name :: "string option"
  Author :: "string option"
  Genre :: "string option"
  Rating :: "num option"
  reviews_count :: "int option"
  price :: "num option"
  form :: "string option"
  Reading_age :: string
  Publishing_date :: "date option"
  Year :: "int option"
  Month :: "int option"
  Estimated_Revenue :: "num option"

text \<open>
  \<open>DataNotFound\<close>: the CSV file is absent (\<open>load_data\<close> returns \<open>None\<close> and the script
  stops). \<open>ValueError\<close>: the exception that \<open>astype\<close> raises on a cell whose text is no
  number. \<open>OverflowError\<close>: the exception that \<open>astype(int)\<close> raises on an integer that
  does not fit 64 bits. Nothing catches the last two.
\<close>

datatype error = DataNotFound | ValueError | OverflowError

section \<open>Parsing cells\<close>

definition is_digit :: "char \<Rightarrow> bool" where
  "is_digit c = (c \<in> set ''0123456789'')"

text \<open>
  The white space that Python's \<open>float\<close> and \<open>int\<close> drop around a numeral: the six
  ASCII ones, and the two Latin-1 spaces outside ASCII (next line \<open>0x85\<close>, no-break
  space \<open>0xA0\<close>), which the conversion turns into a space first. The separators
  \<open>0x1C\<close> to \<open>0x1F\<close> are not dropped.
\<close>

definition is_space :: "char \<Rightarrow> bool" where
  "is_space c =
     (c \<in> set [CHR '' '', CHR 0x09, CHR 0x0A, CHR 0x0B, CHR 0x0C, CHR 0x0D,
                CHR 0x85, CHR 0xA0])"

definition digit_val :: "char \<Rightarrow> nat" where
  "digit_val c = of_char c - 48"

definition dec_val :: "string \<Rightarrow> nat" where
  "dec_val ds = foldl (\<lambda>a c. 10 * a + digit_val c) 0 ds"

definition strip :: "string \<Rightarrow> string" where
  "strip s = rev (dropWhile is_space (rev (dropWhile is_space s)))"

text \<open>
  Digit grouping: an underscore may stand between two digits and nowhere else.
  \<open>underscores_ok prev s\<close> checks the rest \<open>s\<close> of a text after the character \<open>prev\<close>;
  \<open>remove_underscores\<close> checks a text and takes the underscores out.
\<close>

fun underscores_ok :: "char \<Rightarrow> string \<Rightarrow> bool" where
  "underscores_ok prev [] = (prev \<noteq> CHR ''_'')"
| "underscores_ok prev (c # cs) =
     ((if c = CHR ''_'' then is_digit prev
       else if prev = CHR ''_'' then is_digit c
       else True)
      \<and> underscores_ok c cs)"

definition remove_underscores :: "string \<Rightarrow> string option" where
  "remove_underscores s =
     (if underscores_ok (CHR 0x00) s then Some (filter (\<lambda>c. c \<noteq> CHR ''_'') s) else None)"

text \<open>An optional sign in front of a numeral: the sign as \<open>True\<close> for minus, and the rest.\<close>

fun split_sign :: "string \<Rightarrow> bool \<times> string" where
  "split_sign [] = (False, [])"
| "split_sign (c # cs) =
     (if c = CHR ''-'' then (True, cs)
      else if c = CHR ''+'' then (False, cs)
      else (False, c # cs))"

text \<open>
  Python's \<open>int(s)\<close> on text: digit grouping is checked and removed, surrounding white
  space is dropped, then come an optional sign and at least one decimal digit. More
  than 4300 digits are refused (the interpreter's default limit).
\<close>

definition parse_int :: "string \<Rightarrow> error + int" where
  "parse_int s =
     (case remove_underscores s of
        None \<Rightarrow> Inl ValueError
      | Some t \<Rightarrow>
          (let (neg, ds) = split_sign (strip t)
           in if ds \<noteq> [] \<and> list_all is_digit ds \<and> length ds \<le> 4300
              then Inr (if neg then - int (dec_val ds) else int (dec_val ds))
              else Inl ValueError))"

text \<open>\<open>astype(int)\<close> stores each integer in 64 bits.\<close>

definition to_int64 :: "int \<Rightarrow> error + int" where
  "to_int64 k = (if - (2 ^ 63) \<le> k \<and> k < 2 ^ 63 then Inr k else Inl OverflowError)"

text \<open>The exponent part of a float literal: nothing, or \<open>e\<close>/\<open>E\<close>, an optional sign, digits.\<close>

fun parse_exponent :: "string \<Rightarrow> int option" where
  "parse_exponent [] = Some 0"
| "parse_exponent (c # cs) =
     (if c = CHR ''e'' \<or> c = CHR ''E''
      then (let (neg, ds) = split_sign cs
            in if ds \<noteq> [] \<and> list_all is_digit ds
               then Some (if neg then - int (dec_val ds) else int (dec_val ds))
               else None)
      else None)"

definition scale10 :: "rat \<Rightarrow> int \<Rightarrow> rat" where
  "scale10 m e = (if 0 \<le> e then m * 10 ^ nat e else m / 10 ^ nat (- e))"

text \<open>
  An unsigned decimal literal: digits with an optional fraction (or a fraction alone)
  and an optional exponent; its exact value.
\<close>

definition float_number :: "string \<Rightarrow> rat option" where
  "float_number body =
     (let ip = takeWhile is_digit body;
          r = dropWhile is_digit body;
          (fp, r') = (case r of
                        [] \<Rightarrow> ([], r)
                      | c # cs \<Rightarrow> if c = CHR ''.''
                                 then (takeWhile is_digit cs, dropWhile is_digit cs)
                                 else ([], r))
      in if ip = [] \<and> fp = [] then None
         else (case parse_exponent r' of
                 None \<Rightarrow> None
               | Some e \<Rightarrow> Some (scale10 (of_nat (dec_val (ip @ fp))) (e - int (length fp)))))"

text \<open>
  A literal too large for a double is an infinity: from \<open>2^1024 - 2^970\<close> on, the
  nearest double is none of the finite ones.
\<close>

definition to_double :: "bool \<Rightarrow> rat \<Rightarrow> num" where
  "to_double neg m =
     (if 2 ^ 1024 - 2 ^ 970 \<le> m then (if neg then MInf else PInf)
      else Fin (if neg then - m else m))"

definition ascii_lower :: "char \<Rightarrow> char" where
  "ascii_lower c =
     (case map_of (zip ''ABCDEFGHIJKLMNOPQRSTUVWXYZ'' ''abcdefghijklmnopqrstuvwxyz'') c of
        None \<Rightarrow> c
      | Some l \<Rightarrow> l)"

text \<open>
  Python's \<open>float(s)\<close> on text, as \<open>astype(float)\<close> applies it to each cell: digit
  grouping is checked and removed, surrounding white space is dropped; then come an
  optional sign and either \<open>inf\<close>, \<open>infinity\<close> or \<open>nan\<close> in any case of letters, or a
  decimal literal. \<open>nan\<close> gives NaN, the missing value.
\<close>

definition parse_float :: "string \<Rightarrow> error + num option" where
  "parse_float s =
     (case remove_underscores s of
        None \<Rightarrow> Inl ValueError
      | Some t \<Rightarrow>
          (let (neg, body) = split_sign (strip t);
               word = map ascii_lower body
           in if word = ''inf'' \<or> word = ''infinity''
              then Inr (Some (if neg then MInf else PInf))
              else if word = ''nan'' then Inr None
              else (case float_number body of
                      None \<Rightarrow> Inl ValueError
                    | Some m \<Rightarrow> Inr (Some (to_double neg m)))))"

text \<open>
  \<open>str.extract(r"(\d+\.\d+)")\<close>: the leftmost match of one or more digits, a dot, one or
  more digits; each run of digits is taken as long as possible. \<open>match_here\<close> tries the
  pattern at the start of the text.
\<close>

definition match_here :: "string \<Rightarrow> string option" where
  "match_here s =
     (let ip = takeWhile is_digit s
      in if ip = [] then None
         else (case dropWhile is_digit s of
                 [] \<Rightarrow> None
               | c # cs \<Rightarrow>
                   (let fp = takeWhile is_digit cs
                    in if c = CHR ''.'' \<and> fp \<noteq> [] then Some (ip @ c # fp) else None)))"

fun extract_decimal :: "string \<Rightarrow> string option" where
  "extract_decimal [] = None"
| "extract_decimal (c # cs) =
     (case match_here (c # cs) of
        Some m \<Rightarrow> Some m
      | None \<Rightarrow> extract_decimal cs)"

section \<open>The loader: \<open>load_data\<close>\<close>

text \<open>Step 1: \<open>df["Rating"].str.extract(r"(\d+\.\d+)").astype(float)\<close>; no match is NaN.\<close>

definition clean_rating :: "string option \<Rightarrow> error + num option" where
  "clean_rating cell =
     (case cell of
        None \<Rightarrow> Inr None
      | Some s \<Rightarrow>
          (case extract_decimal s of
             None \<Rightarrow> Inr None
           | Some m \<Rightarrow> parse_float m))"

text \<open>
  Step 2: \<open>df["price"].replace('[\$,]', '', regex=True).astype(float)\<close>: every dollar sign
  and comma is removed from a text cell; a missing cell stays missing.
\<close>

definition clean_price :: "string option \<Rightarrow> error + num option" where
  "clean_price cell =
     (case cell of
        None \<Rightarrow> Inr None
      | Some s \<Rightarrow> parse_float (filter (\<lambda>c. c \<noteq> CHR ''$'' \<and> c \<noteq> CHR '','') s))"

text \<open>
  Step 3: \<open>df["id"].str.replace("#", "").astype(int)\<close>: every \<open>#\<close> is removed; a missing
  cell cannot become an integer.
\<close>

definition clean_rank :: "string option \<Rightarrow> error + int" where
  "clean_rank cell =
     (case cell of
        None \<Rightarrow> Inl ValueError
      | Some s \<Rightarrow>
          (case parse_int (filter (\<lambda>c. c \<noteq> CHR ''#'') s) of
             Inl e \<Rightarrow> Inl e
           | Inr k \<Rightarrow> to_int64 k))"

text \<open>
  Step 4: \<open>pd.to_datetime(column, errors=...)\<close>. What text is a date is pandas'
  business: \<open>parse\<close> stands for its parser, \<open>None\<close> where the text is no date. With
  \<open>errors="raise"\<close> (the default) such a text raises, with \<open>errors="coerce"\<close> it becomes
  NaT. A missing cell is NaT.
\<close>

datatype errors_arg = Raise | Coerce

definition convert_date :: "(string \<Rightarrow> date option) \<Rightarrow> errors_arg \<Rightarrow> string option \<Rightarrow> error + date option" where
  "convert_date parse errors cell =
     (case cell of
        None \<Rightarrow> Inr None
      | Some s \<Rightarrow>
          (case parse s of
             Some d \<Rightarrow> Inr (Some d)
           | None \<Rightarrow> (case errors of Raise \<Rightarrow> Inl ValueError | Coerce \<Rightarrow> Inr None)))"

text \<open>Step 5: \<open>price * reviews count\<close>; NaN on either side gives NaN, and so does infinity times 0.\<close>

definition times_int :: "num \<Rightarrow> int \<Rightarrow> num option" where
  "times_int a k =
     (case a of
        Fin x \<Rightarrow> Some (Fin (x * of_int k))
      | PInf \<Rightarrow> (if 0 < k then Some PInf else if k < 0 then Some MInf else None)
      | MInf \<Rightarrow> (if 0 < k then Some MInf else if k < 0 then Some PInf else None))"

definition times_opt :: "num option \<Rightarrow> int option \<Rightarrow> num option" where
  "times_opt p n =
     (case p of
        None \<Rightarrow> None
      | Some x \<Rightarrow> (case n of None \<Rightarrow> None | Some k \<Rightarrow> times_int x k))"

text \<open>Step 6: \<open>fillna("Not Specified")\<close>.\<close>

definition fillna :: "string \<Rightarrow> string option \<Rightarrow> string" where
  "fillna dflt cell = (case cell of None \<Rightarrow> dflt | Some s \<Rightarrow> s)"

text \<open>Running a conversion down a column stops at the first exception.\<close>

fun traverse :: "('a \<Rightarrow> error + 'b) \<Rightarrow> 'a list \<Rightarrow> error + 'b list" where
  "traverse f [] = Inr []"
| "traverse f (x # xs) =
     (case f x of
        Inl e \<Rightarrow> Inl e
      | Inr y \<Rightarrow> (case traverse f xs of Inl e \<Rightarrow> Inl e | Inr ys \<Rightarrow> Inr (y # ys)))"

definition to_datetime :: "(string \<Rightarrow> date option) \<Rightarrow> errors_arg \<Rightarrow> string option list \<Rightarrow> error + date option list" where
  "to_datetime parse errors column = traverse (convert_date parse errors) column"

text \<open>A cleaned row from a raw row and its four converted cells.\<close>

definition make_row :: "raw_row \<Rightarrow> num option \<Rightarrow> num option \<Rightarrow> int \<Rightarrow> date option \<Rightarrow> book" where
  "make_row r rating p rk d =
     \<lparr> Rank = rk,
       Book_name = raw_Book_name r,
       Author = raw_Author r,
       Genre = raw_Genre r,
       Rating = rating,
       reviews_count = raw_reviews_count r,
       price = p,
       form = raw_form r,
       Reading_age = fillna ''Not Specified'' (raw_Reading_age r),
       Publishing_date = d,
       Year = map_option dt_year d,
       Month = map_option dt_month d,
       Estimated_Revenue = times_opt p (raw_reviews_count r) \<rparr>"

text \<open>
  \<open>load_data\<close>, column by column in the script's order. The argument \<open>file\<close> is the
  content of the CSV file, \<open>None\<close> when the file does not exist. \<open>parse_date\<close> is
  pandas' date parser for the column at hand (pandas chooses the date format from the
  column).
\<close>

definition load_data ::
  "(string option list \<Rightarrow> string \<Rightarrow> date option) \<Rightarrow> raw_row list option \<Rightarrow> error + book list" where
  "load_data parse_date file =
     (case file of
        None \<Rightarrow> Inl DataNotFound
      | Some raw \<Rightarrow>
          (case traverse clean_rating (map raw_Rating raw) of
             Inl e \<Rightarrow> Inl e
           | Inr ratings \<Rightarrow>
               (case traverse clean_price (map raw_price raw) of
                  Inl e \<Rightarrow> Inl e
                | Inr prices \<Rightarrow>
                    (case traverse clean_rank (map raw_id raw) of
                       Inl e \<Rightarrow> Inl e
                     | Inr ranks \<Rightarrow>
                         (case to_datetime (parse_date (map raw_Publishing_date raw)) Coerce
                                 (map raw_Publishing_date raw) of
                            Inl e \<Rightarrow> Inl e
                          | Inr dates \<Rightarrow>
                              Inr (map (\<lambda>(r, rating, p, rk, d). make_row r rating p rk d)
                                     (zip raw (zip ratings (zip prices (zip ranks dates))))))))))"

section \<open>The filter engine\<close>

text \<open>
  The values of the sidebar widgets. \<open>genre_filter\<close> and \<open>author_filter\<close> are the labels
  ticked in the two multiselects, \<open>price_range\<close> the two ends of the price slider,
  \<open>rating_filter\<close> the minimum rating, \<open>format_filter\<close> the choice of the format box
  (a format or the label \<open>All Formats\<close>) and \<open>year_filter\<close> the choice of the year box
  (a year or the label \<open>All Years\<close>). Which labels the widgets offer is presentation
  and not modelled: any list of labels is a selection. The sliders give finite numbers.
\<close>

datatype year_choice = All_Years | Year_is int

record selection =
  genre_filter :: "string list"
  author_filter :: "string list"
  price_range :: "rat \<times> rat"
  rating_filter :: rat
  format_filter :: string
  year_filter :: year_choice

text \<open>Column tests of pandas; each is false on a missing cell.\<close>

definition notna :: "'a option \<Rightarrow> bool" where
  "notna cell = (case cell of None \<Rightarrow> False | Some v \<Rightarrow> True)"

definition isin :: "string option \<Rightarrow> string list \<Rightarrow> bool" where
  "isin cell vs = (case cell of None \<Rightarrow> False | Some v \<Rightarrow> v \<in> set vs)"

definition between :: "num option \<Rightarrow> rat \<Rightarrow> rat \<Rightarrow> bool" where
  "between cell lo hi = (case cell of None \<Rightarrow> False | Some v \<Rightarrow> Fin lo \<le> v \<and> v \<le> Fin hi)"

definition ge_cell :: "num option \<Rightarrow> rat \<Rightarrow> bool" where
  "ge_cell cell t = (case cell of None \<Rightarrow> False | Some v \<Rightarrow> Fin t \<le> v)"

definition eq_cell :: "'a option \<Rightarrow> 'a \<Rightarrow> bool" where
  "eq_cell cell v = (case cell of None \<Rightarrow> False | Some w \<Rightarrow> w = v)"

definition genre_mask :: "selection \<Rightarrow> book \<Rightarrow> bool" where
  "genre_mask sel r =
     (if ''All Genres'' \<in> set (genre_filter sel) \<or> length (genre_filter sel) = 0
      then notna (Genre r)
      else isin (Genre r) (genre_filter sel))"

definition author_mask :: "selection \<Rightarrow> book \<Rightarrow> bool" where
  "author_mask sel r =
     (if ''All Authors'' \<in> set (author_filter sel) \<or> length (author_filter sel) = 0
      then notna (Author r)
      else isin (Author r) (author_filter sel))"

text \<open>The four steps between \<open>APPLY FILTERS\<close> and the header, in the script's order.\<close>

definition filtered_df :: "book list \<Rightarrow> selection \<Rightarrow> book list" where
  "filtered_df df sel =
     (let f1 = filter (\<lambda>r. genre_mask sel r \<and> author_mask sel r) df;
          f2 = filter (\<lambda>r. between (price r) (fst (price_range sel)) (snd (price_range sel))
                           \<and> ge_cell (Rating r) (rating_filter sel)) f1;
          f3 = (if format_filter sel \<noteq> ''All Formats''
                then filter (\<lambda>r. eq_cell (form r) (format_filter sel)) f2
                else f2)
      in case year_filter sel of
           All_Years \<Rightarrow> f3
         | Year_is y \<Rightarrow> filter (\<lambda>r. eq_cell (Year r) y) f3)"

section \<open>The aggregation engine\<close>

text \<open>The present values of a column: pandas reductions skip missing cells.\<close>

definition dropna :: "'a option list \<Rightarrow> 'a list" where
  "dropna cells = concat (map (\<lambda>cell. case cell of None \<Rightarrow> [] | Some v \<Rightarrow> [v]) cells)"

definition count_cells :: "'a option list \<Rightarrow> nat" where
  "count_cells cells = length (dropna cells)"

text \<open>Addition of floats: the two infinities add up to NaN.\<close>

definition num_add :: "num \<Rightarrow> num \<Rightarrow> num option" where
  "num_add a b =
     (case a of
        Fin x \<Rightarrow> (case b of MInf \<Rightarrow> Some MInf | Fin y \<Rightarrow> Some (Fin (x + y)) | PInf \<Rightarrow> Some PInf)
      | PInf \<Rightarrow> (case b of MInf \<Rightarrow> None | Fin y \<Rightarrow> Some PInf | PInf \<Rightarrow> Some PInf)
      | MInf \<Rightarrow> (case b of MInf \<Rightarrow> Some MInf | Fin y \<Rightarrow> Some MInf | PInf \<Rightarrow> None))"

text \<open>\<open>sum()\<close> of a float column: the present values added up from 0; once NaN, it stays NaN.\<close>

definition sum_col :: "num option list \<Rightarrow> num option" where
  "sum_col cells =
     foldl (\<lambda>acc v. case acc of None \<Rightarrow> None | Some a \<Rightarrow> num_add a v) (Some (Fin 0)) (dropna cells)"

definition div_count :: "num \<Rightarrow> nat \<Rightarrow> num" where
  "div_count a n = (case a of MInf \<Rightarrow> MInf | Fin x \<Rightarrow> Fin (x / of_nat n) | PInf \<Rightarrow> PInf)"

text \<open>\<open>mean()\<close>: the sum of the present values over their number; NaN when there is none.\<close>

definition mean :: "num option list \<Rightarrow> num option" where
  "mean cells =
     (let n = count_cells cells
      in if n = 0 then None else map_option (\<lambda>s. div_count s n) (sum_col cells))"

text \<open>
  Python's \<open>round(x, 2)\<close>, on the exact value: the nearest multiple of 1/100, a tie going
  to the even one. NaN stays NaN and an infinity stays itself.
\<close>

definition round_half_even :: "rat \<Rightarrow> int" where
  "round_half_even x =
     (let f = \<lfloor>x\<rfloor>; d = x - of_int f
      in if d < 1 / 2 then f
         else if 1 / 2 < d then f + 1
         else if even f then f else f + 1)"

definition round2 :: "num option \<Rightarrow> num option" where
  "round2 cell =
     map_option (\<lambda>v. case v of
                        MInf \<Rightarrow> MInf
                      | Fin x \<Rightarrow> Fin (of_int (round_half_even (x * 100)) / 100)
                      | PInf \<Rightarrow> PInf) cell"

record kpis =
  total_books :: nat
  avg_rating :: "num option"
  total_reviews :: int
  avg_price :: "num option"
  total_revenue :: "num option"

definition compute_kpis :: "book list \<Rightarrow> kpis" where
  "compute_kpis fd =
     \<lparr> total_books = length fd,
       avg_rating = round2 (mean (map Rating fd)),
       total_reviews = sum_list (dropna (map reviews_count fd)),
       avg_price = round2 (mean (map price fd)),
       total_revenue = sum_col (map Estimated_Revenue fd) \<rparr>"

text \<open>
  \<open>groupby(column)\<close>: one group per present value of the column, the groups in
  ascending order of the value, each group keeping the frame's row order; rows whose
  value is missing belong to no group.
\<close>

definition groupby :: "('r \<Rightarrow> 'k::linorder option) \<Rightarrow> 'r list \<Rightarrow> ('k \<times> 'r list) list" where
  "groupby col rows =
     map (\<lambda>k. (k, filter (\<lambda>r. eq_cell (col r) k) rows))
         (sort (remdups (dropna (map col rows))))"

record 'k stats =
  group_key :: 'k
  Avg_Rating :: "num option"
  Total_Reviews :: int
  Est_Revenue :: "num option"
  Book_Count :: nat

text \<open>
  The dictionary given to \<open>agg\<close> in \<open>genre_stats\<close> and \<open>author_stats\<close>: mean of \<open>Rating\<close>,
  sum of \<open>reviews count\<close>, sum of \<open>Estimated Revenue\<close>, \<open>count\<close> of \<open>Book name\<close>
  (the number of present cells of that column).
\<close>

definition agg :: "'k \<times> book list \<Rightarrow> 'k stats" where
  "agg g =
     \<lparr> group_key = fst g,
       Avg_Rating = mean (map Rating (snd g)),
       Total_Reviews = sum_list (dropna (map reviews_count (snd g))),
       Est_Revenue = sum_col (map Estimated_Revenue (snd g)),
       Book_Count = count_cells (map Book_name (snd g)) \<rparr>"

definition genre_stats :: "book list \<Rightarrow> string stats list" where
  "genre_stats fd = map agg (groupby Genre fd)"

definition author_stats :: "book list \<Rightarrow> string stats list" where
  "author_stats fd = map agg (groupby Author fd)"

record year_stats =
  year_key :: int
  Year_Book_Count :: nat
  Year_Avg_Rating :: "num option"
  Year_Total_Reviews :: int

definition yearly_trend :: "book list \<Rightarrow> year_stats list" where
  "yearly_trend fd =
     (let trend_df = filter (\<lambda>r. notna (Year r)) fd
      in map (\<lambda>g. \<lparr> year_key = fst g,
                     Year_Book_Count = count_cells (map Book_name (snd g)),
                     Year_Avg_Rating = mean (map Rating (snd g)),
                     Year_Total_Reviews = sum_list (dropna (map reviews_count (snd g))) \<rparr>)
             (groupby Year trend_df))"

text \<open>
  \<open>nlargest(n, column)\<close> with pandas' default \<open>keep='first'\<close>: the rows with a present
  value in descending order of the value, rows of equal value in frame order; then the
  rows whose value is missing, in frame order; of these the first \<open>n\<close>.
  \<open>sort_desc\<close> is the stable descending sort (reverse, sort ascending, reverse).
\<close>

definition sort_desc :: "('k::linorder \<times> 'r) list \<Rightarrow> ('k \<times> 'r) list" where
  "sort_desc kvs = rev (sort_key fst (rev kvs))"

definition nlargest :: "nat \<Rightarrow> ('r \<Rightarrow> 'k::linorder option) \<Rightarrow> 'r list \<Rightarrow> 'r list" where
  "nlargest n col rows =
     (let dropped = concat (map (\<lambda>r. case col r of None \<Rightarrow> [] | Some k \<Rightarrow> [(k, r)]) rows);
          nan_rows = filter (\<lambda>r. \<not> notna (col r)) rows
      in take n (map snd (sort_desc dropped) @ nan_rows))"

definition top_reviews :: "book list \<Rightarrow> book list" where
  "top_reviews fd = nlargest 10 reviews_count fd"

definition top_rated :: "book list \<Rightarrow> book list" where
  "top_rated fd = nlargest 10 Rating fd"

definition top_revenue :: "book list \<Rightarrow> book list" where
  "top_revenue fd = nlargest 10 Estimated_Revenue fd"

definition top_authors :: "book list \<Rightarrow> string stats list" where
  "top_authors fd = nlargest 15 (\<lambda>a. Some (Total_Reviews a)) (author_stats fd)"

section \<open>Notions used in the statements\<close>

text \<open>
  Comparison of two cells of a metric column for a descending order: a present value is
  at least every value not above it, and at least a missing one; a missing one is at
  least a missing one only.
\<close>

definition metric_ge :: "'k::linorder option \<Rightarrow> 'k option \<Rightarrow> bool" where
  "metric_ge a b =
     (case b of
        None \<Rightarrow> True
      | Some y \<Rightarrow> (case a of None \<Rightarrow> False | Some x \<Rightarrow> y \<le> x))"

text \<open>
  A multiselect is narrowed: the ticked labels \<open>new\<close> stand for fewer rows than \<open>old\<close>.
  Either nothing changed, or \<open>old\<close> already let every label pass, or \<open>new\<close> is a part of
  \<open>old\<close> and not empty (the empty selection lets every label pass).
\<close>

definition narrowed_labels :: "string \<Rightarrow> string list \<Rightarrow> string list \<Rightarrow> bool" where
  "narrowed_labels all_label new old =
     (new = old \<or> all_label \<in> set old \<or> old = [] \<or> (set new \<subseteq> set old \<and> new \<noteq> []))"

text \<open>Selection \<open>new\<close> narrows selection \<open>old\<close>, filter by filter.\<close>

definition narrowed :: "selection \<Rightarrow> selection \<Rightarrow> bool" where
  "narrowed new old =
     (narrowed_labels ''All Genres'' (genre_filter new) (genre_filter old)
      \<and> narrowed_labels ''All Authors'' (author_filter new) (author_filter old)
      \<and> fst (price_range old) \<le> fst (price_range new)
      \<and> snd (price_range new) \<le> snd (price_range old)
      \<and> rating_filter old \<le> rating_filter new
      \<and> (format_filter new = format_filter old \<or> format_filter old = ''All Formats'')
      \<and> (year_filter new = year_filter old \<or> year_filter old = All_Years))"

text \<open>
  The rank rule in the specification's words, for comparison with \<open>clean_rank\<close>: only a
  marker at the front of the identifier is taken off.
\<close>

definition spec_strip_leading_marker :: "string \<Rightarrow> string" where
  "spec_strip_leading_marker s =
     (case s of [] \<Rightarrow> [] | c # cs \<Rightarrow> if c = CHR ''#'' then cs else c # cs)"

section \<open>Sample data\<close>

text \<open>A date parser to run the loader with: it reads \<open>YYYY-MM-DD\<close> and nothing else.\<close>

definition iso_date :: "string \<Rightarrow> date option" where
  "iso_date s =
     (if length s = 10 \<and> list_all is_digit (take 4 s) \<and> s ! 4 = CHR ''-''
         \<and> list_all is_digit (take 2 (drop 5 s)) \<and> s ! 7 = CHR ''-''
         \<and> list_all is_digit (drop 8 s)
      then (let y = dec_val (take 4 s); m = dec_val (take 2 (drop 5 s)); d = dec_val (drop 8 s)
            in if 1 \<le> m \<and> m \<le> 12 \<and> 1 \<le> d \<and> d \<le> 31
               then Some \<lparr> dt_year = int y, dt_month = int m, dt_day = int d \<rparr>
               else None)
      else None)"

definition iso_parser :: "string option list \<Rightarrow> string \<Rightarrow> date option" where
  "iso_parser column s = iso_date s"

text \<open>The raw row of the specification's cleaning example.\<close>

definition example_raw :: raw_row where
  "example_raw =
     \<lparr> raw_id = Some ''#3'',
       raw_Book_name = Some ''Third Book'',
       raw_Author = Some ''Ann Author'',
       raw_Genre = Some ''Fiction'',
       raw_Rating = Some ''4.5 out of 5 stars'',
       raw_reviews_count = Some 1500,
       raw_price = Some ''$12.99'',
       raw_form = Some ''Paperback'',
       raw_Reading_age = None,
       raw_Publishing_date = Some ''2023-01-15'' \<rparr>"

text \<open>A cleaned row with the given rank, name, genre, rating and number of reviews.\<close>

definition sample_book :: "int \<Rightarrow> string option \<Rightarrow> string \<Rightarrow> rat option \<Rightarrow> int \<Rightarrow> book" where
  "sample_book rk name genre rating reviews =
     \<lparr> Rank = rk,
       Book_name = name,
       Author = Some ''Ann Author'',
       Genre = Some genre,
       Rating = map_option Fin rating,
       reviews_count = Some reviews,
       price = Some (Fin 10),
       form = Some ''Paperback'',
       Reading_age = ''Not Specified'',
       Publishing_date = None,
       Year = None,
       Month = None,
       Estimated_Revenue = Some (Fin (10 * of_int reviews)) \<rparr>"

text \<open>The widgets as the script starts them, on a price slider from 0 to 100.\<close>

definition all_pass :: selection where
  "all_pass =
     \<lparr> genre_filter = [''All Genres''],
       author_filter = [''All Authors''],
       price_range = (0, 100),
       rating_filter = 0,
       format_filter = ''All Formats'',
       year_filter = All_Years \<rparr>"

text \<open>Two cleaned rows: one rated 4.5, one without rating.\<close>

definition rated_book :: book where
  "rated_book = sample_book 3 (Some ''Third Book'') ''Fiction'' (Some (9 / 2)) 1500"

definition unrated_book :: book where
  "unrated_book = sample_book 4 (Some ''Fourth Book'') ''Fiction'' None 20"

text \<open>The example row cleaned, its date read by \<open>iso_parser\<close>.\<close>

definition example_book :: book where
  "example_book =
     \<lparr> Rank = 3,
       Book_name = Some ''Third Book'',
       Author = Some ''Ann Author'',
       Genre = Some ''Fiction'',
       Rating = Some (Fin (9 / 2)),
       reviews_count = Some 1500,
       price = Some (Fin (1299 / 100)),
       form = Some ''Paperback'',
       Reading_age = ''Not Specified'',
       Publishing_date = Some \<lparr> dt_year = 2023, dt_month = 1, dt_day = 15 \<rparr>,
       Year = Some 2023,
       Month = Some 1,
       Estimated_Revenue = Some (Fin 19485) \<rparr>"

text \<open>
  Raw rows with a price that is no number, a marker behind the rank, a date that is
  none, and an infinite price.
\<close>

definition bad_price_raw :: raw_row where
  "bad_price_raw = example_raw\<lparr>raw_id := Some ''#4'', raw_price := Some ''twelve dollars''\<rparr>"

definition trailing_marker_raw :: raw_row where
  "trailing_marker_raw = example_raw\<lparr>raw_id := Some ''3#''\<rparr>"

definition bad_date_raw :: raw_row where
  "bad_date_raw = example_raw\<lparr>raw_Publishing_date := Some ''sometime in spring''\<rparr>"

definition infinite_price_raw :: raw_row where
  "infinite_price_raw = example_raw\<lparr>raw_price := Some ''$inf''\<rparr>"

text \<open>A row of another genre, and six rows of which the least reviewed has no name.\<close>

definition romance_book :: book where
  "romance_book = sample_book 5 (Some ''Fifth Book'') ''Romance'' (Some 4) 300"

definition six_books :: "book list" where
  "six_books =
     [sample_book 1 (Some ''First Book'') ''Fiction'' (Some 4) 100,
      sample_book 2 (Some ''Second Book'') ''Romance'' (Some 4) 100,
      sample_book 3 (Some ''Third Book'') ''Fiction'' (Some 4) 100,
      sample_book 4 (Some ''Fourth Book'') ''Romance'' (Some 4) 100,
      sample_book 5 (Some ''Fifth Book'') ''Fiction'' (Some 4) 100,
      sample_book 6 None ''Fiction'' (Some 4) 1]"

text \<open>Two rows with 100 reviews each.\<close>

definition tie_first :: book where
  "tie_first = sample_book 1 (Some ''First Book'') ''Fiction'' (Some 4) 100"

definition tie_second :: book where
  "tie_second = sample_book 2 (Some ''Second Book'') ''Fiction'' (Some 4) 100"

section \<open>Properties of the number order\<close>

lemma num_le_simps [simp]:
  "Fin x \<le> Fin y \<longleftrightarrow> x \<le> y" "MInf \<le> b" "a \<le> PInf"
  "\<not> Fin x \<le> MInf" "\<not> PInf \<le> Fin y" "\<not> PInf \<le> MInf"
  by (simp_all add: less_eq_num_def split: num.splits)

section \<open>Properties of the loader\<close>

lemmas parse_eval =
  parse_float_def parse_int_def remove_underscores_def match_here_def strip_def
  is_space_def is_digit_def dec_val_def digit_val_def scale10_def float_number_def
  to_double_def ascii_lower_def to_int64_def

lemma clean_rating_example:
  "clean_rating (Some ''4.5 out of 5 stars'') = Inr (Some (Fin (9 / 2)))"
  by (simp add: clean_rating_def parse_eval)

lemma clean_price_example: "clean_price (Some ''$12.99'') = Inr (Some (Fin (1299 / 100)))"
  by (simp add: clean_price_def parse_eval)

lemma clean_rank_example: "clean_rank (Some ''#3'') = Inr 3"
  by (simp add: clean_rank_def parse_eval)

lemma convert_date_coerce:
  "convert_date parse Coerce cell =
     Inr (case cell of None \<Rightarrow> None | Some s \<Rightarrow> parse s)"
  by (simp add: convert_date_def split: option.splits)

text \<open>
  Claim C2. A raw row with identifier \<open>#3\<close>, rating text \<open>4.5 out of 5 stars\<close>, price
  \<open>$12.99\<close> and 1500 reviews is loaded, whatever its other cells and whatever the date
  parser, as a row of rank 3, rating 4.5, price 12.99 and estimated revenue
  19485 = price times reviews.
\<close>

theorem cleaning_example:
  "raw_id r = Some ''#3'' \<Longrightarrow> raw_Rating r = Some ''4.5 out of 5 stars'' \<Longrightarrow>
   raw_price r = Some ''$12.99'' \<Longrightarrow> raw_reviews_count r = Some 1500 \<Longrightarrow>
   \<exists>b. load_data parse_date (Some [r]) = Inr [b]
       \<and> Rank b = 3 \<and> Rating b = Some (Fin (9 / 2)) \<and> price b = Some (Fin (1299 / 100))
       \<and> Estimated_Revenue b = Some (Fin 19485)
       \<and> Estimated_Revenue b = times_opt (price b) (reviews_count b)"
  by (simp add: load_data_def to_datetime_def convert_date_coerce make_row_def
        clean_rating_example clean_price_example clean_rank_example times_opt_def times_int_def)

lemma iso_example:
  "iso_date ''2023-01-15'' = Some \<lparr> dt_year = 2023, dt_month = 1, dt_day = 15 \<rparr>"
  by (simp add: iso_date_def is_digit_def dec_val_def digit_val_def)

theorem cleaning_example_witness:
  "\<exists>b. load_data iso_parser (Some [example_raw]) = Inr [b]
       \<and> Rank b = 3 \<and> Rating b = Some (Fin (9 / 2)) \<and> price b = Some (Fin (1299 / 100))
       \<and> Estimated_Revenue b = Some (Fin 19485)
       \<and> Estimated_Revenue b = times_opt (price b) (reviews_count b)"
  using cleaning_example [of example_raw iso_parser] by (simp add: example_raw_def)

text \<open>What Python takes for a number, on some texts.\<close>

lemma python_numerals:
  "parse_float ''inf'' = Inr (Some PInf)" "parse_float ''-Infinity'' = Inr (Some MInf)"
  "parse_float ''NaN'' = Inr None" "parse_float ''1_000.5'' = Inr (Some (Fin (2001 / 2)))"
  "parse_float ''1__0'' = Inl ValueError" "parse_float [CHR 0x1C, CHR ''3''] = Inl ValueError"
  "parse_float [CHR 0xA0, CHR ''3''] = Inr (Some (Fin 3))"
  "parse_int ''1_0'' = Inr 10" "parse_int [CHR ''3'', CHR 0x1F] = Inl ValueError"
  "parse_int ''inf'' = Inl ValueError"
  "clean_rank (Some ''#9223372036854775807'') = Inr 9223372036854775807"
  "clean_rank (Some ''#9223372036854775808'') = Inl OverflowError"
  by (simp_all add: clean_rank_def parse_eval)

lemma load_example: "load_data iso_parser (Some [example_raw]) = Inr [example_book]"
  by (simp add: load_data_def to_datetime_def convert_date_coerce make_row_def
        example_raw_def example_book_def iso_parser_def iso_example fillna_def
        clean_rating_example clean_price_example clean_rank_example times_opt_def times_int_def)

lemma infinite_price_loads:
  "load_data iso_parser (Some [infinite_price_raw])
     = Inr [example_book\<lparr>price := Some PInf, Estimated_Revenue := Some PInf\<rparr>]"
  by (simp add: load_data_def to_datetime_def convert_date_coerce make_row_def
        infinite_price_raw_def example_raw_def example_book_def iso_parser_def iso_example
        fillna_def clean_rating_example clean_price_def clean_rank_example parse_eval
        times_opt_def times_int_def)

subsection \<open>Conversions down a column\<close>

lemma traverse_Inl_D: "traverse f xs = Inl e \<Longrightarrow> \<exists>x\<in>set xs. f x = Inl e"
  by (induction xs) (auto split: sum.splits)

lemma traverse_fails: "x \<in> set xs \<Longrightarrow> f x = Inl e \<Longrightarrow> \<exists>e'. traverse f xs = Inl e'"
  by (induction xs) (auto split: sum.splits)

lemma traverse_total: "\<forall>x\<in>set xs. \<exists>y. f x = Inr y \<Longrightarrow> \<exists>ys. traverse f xs = Inr ys"
  by (induction xs) (auto split: sum.splits)

lemma traverse_Inr_D:
  "traverse f xs = Inr ys \<Longrightarrow>
     length ys = length xs \<and> (\<forall>i<length xs. f (xs ! i) = Inr (ys ! i))"
proof (induction xs arbitrary: ys)
  case Nil
  then show ?case by simp
next
  case (Cons x xs)
  then obtain y ys' where y: "f x = Inr y" and t: "traverse f xs = Inr ys'" and ys: "ys = y # ys'"
    by (auto split: sum.splits)
  from Cons.IH [OF t] y ys show ?case
    by (auto simp: nth_Cons split: nat.splits)
qed

subsection \<open>Which exceptions the loader raises\<close>

lemma parse_float_error: "parse_float s = Inl e \<Longrightarrow> e = ValueError"
  by (auto simp: parse_float_def Let_def split: option.splits prod.splits if_splits)

lemma parse_int_error: "parse_int s = Inl e \<Longrightarrow> e = ValueError"
  by (auto simp: parse_int_def Let_def split: option.splits prod.splits if_splits)

lemma clean_rating_error: "clean_rating cell = Inl e \<Longrightarrow> e = ValueError"
  by (auto simp: clean_rating_def dest: parse_float_error split: option.splits)

lemma clean_price_error: "clean_price cell = Inl e \<Longrightarrow> e = ValueError"
  by (auto simp: clean_price_def dest: parse_float_error split: option.splits)

lemma clean_rank_error: "clean_rank cell = Inl e \<Longrightarrow> e = ValueError \<or> e = OverflowError"
  by (auto simp: clean_rank_def to_int64_def dest: parse_int_error
      split: option.splits sum.splits if_splits)

lemma to_datetime_coerce: "\<exists>dates. to_datetime parse Coerce column = Inr dates"
  unfolding to_datetime_def by (rule traverse_total) (simp add: convert_date_coerce)

lemma load_data_error:
  assumes "load_data parse_date (Some raw) = Inl e"
  shows "e = ValueError \<or> e = OverflowError"
proof -
  obtain dates where d: "to_datetime (parse_date (map raw_Publishing_date raw)) Coerce
      (map raw_Publishing_date raw) = Inr dates"
    using to_datetime_coerce by blast
  from assms consider
      "traverse clean_rating (map raw_Rating raw) = Inl e"
    | "traverse clean_price (map raw_price raw) = Inl e"
    | "traverse clean_rank (map raw_id raw) = Inl e"
    by (auto simp: load_data_def d split: sum.splits)
  then show ?thesis
  proof cases
    case 1
    then show ?thesis by (auto dest!: traverse_Inl_D clean_rating_error)
  next
    case 2
    then show ?thesis by (auto dest!: traverse_Inl_D clean_price_error)
  next
    case 3
    then show ?thesis by (auto dest!: traverse_Inl_D clean_rank_error)
  qed
qed

lemma load_data_fails:
  assumes "r \<in> set raw"
    and "(\<exists>e. clean_price (raw_price r) = Inl e) \<or> (\<exists>e. clean_rank (raw_id r) = Inl e)"
  shows "\<exists>e. load_data parse_date (Some raw) = Inl e"
proof -
  from assms have "(\<exists>e. traverse clean_price (map raw_price raw) = Inl e)
      \<or> (\<exists>e. traverse clean_rank (map raw_id raw) = Inl e)"
    by (metis traverse_fails image_eqI list.set_map)
  then show ?thesis
    by (auto simp: load_data_def split: sum.splits)
qed

text \<open>
  Claim C7, as the specification states it, fails: the identifier \<open>3#\<close> with only a
  leading marker taken off is \<open>3#\<close>, which is no integer, and yet the load succeeds with
  rank 3, because the script removes every \<open>#\<close>.
\<close>

theorem strict_parsing_counterexample:
  "parse_int (spec_strip_leading_marker ''3#'') = Inl ValueError
   \<and> raw_id trailing_marker_raw = Some ''3#''
   \<and> load_data iso_parser (Some [trailing_marker_raw]) = Inr [example_book]"
  by (simp add: spec_strip_leading_marker_def trailing_marker_raw_def
        load_data_def to_datetime_def convert_date_coerce make_row_def
        example_raw_def example_book_def iso_parser_def iso_example fillna_def
        clean_rating_example clean_price_example clean_rank_def parse_eval
        times_opt_def times_int_def)

text \<open>
  Claim C7, amended. If in some row the price text, with every dollar sign and comma
  removed, is no float for Python, or the identifier text, with every \<open>#\<close> removed, is
  no integer for Python or an integer that does not fit 64 bits, then the load ends in
  an exception of \<open>astype\<close> and returns no data set.
\<close>

theorem strict_parsing_fatal:
  assumes "\<exists>r\<in>set raw.
      (\<exists>s. raw_price r = Some s
           \<and> parse_float (filter (\<lambda>c. c \<noteq> CHR ''$'' \<and> c \<noteq> CHR '','') s) = Inl ValueError)
    \<or> (\<exists>s. raw_id r = Some s
           \<and> parse_int (filter (\<lambda>c. c \<noteq> CHR ''#'') s) = Inl ValueError)
    \<or> (\<exists>s k. raw_id r = Some s
           \<and> parse_int (filter (\<lambda>c. c \<noteq> CHR ''#'') s) = Inr k
           \<and> to_int64 k = Inl OverflowError)"
  shows "load_data parse_date (Some raw) = Inl ValueError
       \<or> load_data parse_date (Some raw) = Inl OverflowError"
proof -
  from assms obtain r where r: "r \<in> set raw"
    and bad: "(\<exists>s. raw_price r = Some s
           \<and> parse_float (filter (\<lambda>c. c \<noteq> CHR ''$'' \<and> c \<noteq> CHR '','') s) = Inl ValueError)
    \<or> (\<exists>s. raw_id r = Some s
           \<and> parse_int (filter (\<lambda>c. c \<noteq> CHR ''#'') s) = Inl ValueError)
    \<or> (\<exists>s k. raw_id r = Some s
           \<and> parse_int (filter (\<lambda>c. c \<noteq> CHR ''#'') s) = Inr k
           \<and> to_int64 k = Inl OverflowError)"
    by blast
  from bad have "(\<exists>e. clean_price (raw_price r) = Inl e) \<or> (\<exists>e. clean_rank (raw_id r) = Inl e)"
    by (auto simp: clean_price_def clean_rank_def)
  with r obtain e where e: "load_data parse_date (Some raw) = Inl e"
    using load_data_fails by blast
  from load_data_error [OF e] e show ?thesis by blast
qed

theorem strict_parsing_fatal_witness:
  "bad_price_raw \<in> set [example_raw, bad_price_raw]
   \<and> raw_price bad_price_raw = Some ''twelve dollars''
   \<and> parse_float (filter (\<lambda>c. c \<noteq> CHR ''$'' \<and> c \<noteq> CHR '','') ''twelve dollars'') = Inl ValueError
   \<and> (load_data iso_parser (Some [example_raw, bad_price_raw]) = Inl ValueError
      \<or> load_data iso_parser (Some [example_raw, bad_price_raw]) = Inl OverflowError)"
proof -
  have p: "raw_price bad_price_raw = Some ''twelve dollars''"
    by (simp add: bad_price_raw_def)
  have f: "parse_float (filter (\<lambda>c. c \<noteq> CHR ''$'' \<and> c \<noteq> CHR '','') ''twelve dollars'') = Inl ValueError"
    by (simp add: parse_eval)
  have "\<exists>r\<in>set [example_raw, bad_price_raw].
      (\<exists>s. raw_price r = Some s
           \<and> parse_float (filter (\<lambda>c. c \<noteq> CHR ''$'' \<and> c \<noteq> CHR '','') s) = Inl ValueError)
    \<or> (\<exists>s. raw_id r = Some s
           \<and> parse_int (filter (\<lambda>c. c \<noteq> CHR ''#'') s) = Inl ValueError)
    \<or> (\<exists>s k. raw_id r = Some s
           \<and> parse_int (filter (\<lambda>c. c \<noteq> CHR ''#'') s) = Inr k
           \<and> to_int64 k = Inl OverflowError)"
    using p f by auto
  from strict_parsing_fatal [OF this, of iso_parser] p f show ?thesis by simp
qed

subsection \<open>The rating conversion cannot fail\<close>

lemma digit_plain:
  "is_digit c \<Longrightarrow>
     c \<noteq> CHR ''_'' \<and> c \<noteq> CHR ''-'' \<and> c \<noteq> CHR ''+'' \<and> c \<noteq> CHR ''.''
     \<and> \<not> is_space c \<and> ascii_lower c = c"
proof -
  assume "is_digit c"
  then have "c = CHR ''0'' \<or> c = CHR ''1'' \<or> c = CHR ''2'' \<or> c = CHR ''3'' \<or> c = CHR ''4''
      \<or> c = CHR ''5'' \<or> c = CHR ''6'' \<or> c = CHR ''7'' \<or> c = CHR ''8'' \<or> c = CHR ''9''"
    by (simp add: is_digit_def)
  then show ?thesis
    by (elim disjE) (simp_all add: is_space_def ascii_lower_def)
qed

lemma underscores_ok_plain:
  "\<forall>c\<in>set s. c \<noteq> CHR ''_'' \<Longrightarrow> prev \<noteq> CHR ''_'' \<Longrightarrow> underscores_ok prev s"
  by (induction s arbitrary: prev) simp_all

lemma remove_underscores_plain:
  "\<forall>c\<in>set s. c \<noteq> CHR ''_'' \<Longrightarrow> remove_underscores s = Some s"
  by (simp add: remove_underscores_def underscores_ok_plain filter_id_conv)

lemma dropWhile_head: "s \<noteq> [] \<Longrightarrow> \<not> P (hd s) \<Longrightarrow> dropWhile P s = s"
  by (cases s) simp_all

lemma strip_plain: "s \<noteq> [] \<Longrightarrow> \<not> is_space (hd s) \<Longrightarrow> \<not> is_space (last s) \<Longrightarrow> strip s = s"
  by (simp add: strip_def dropWhile_head hd_rev)

lemma float_number_decimal:
  assumes "ip \<noteq> []" "fp \<noteq> []" "\<forall>c\<in>set ip. is_digit c" "\<forall>c\<in>set fp. is_digit c"
  shows "float_number (ip @ CHR ''.'' # fp)
       = Some (scale10 (of_nat (dec_val (ip @ fp))) (- int (length fp)))"
proof -
  have nd: "\<not> is_digit (CHR ''.'')" by (simp add: is_digit_def)
  have t1: "takeWhile is_digit (ip @ CHR ''.'' # fp) = ip"
    using assms(3) nd by (simp add: takeWhile_tail)
  have d1: "dropWhile is_digit (ip @ CHR ''.'' # fp) = CHR ''.'' # fp"
    using assms(3) nd by (simp add: dropWhile_append2)
  have t2: "takeWhile is_digit fp = fp" and d2: "dropWhile is_digit fp = []"
    using assms(4) by simp_all
  show ?thesis
    using assms(1) by (simp add: float_number_def t1 d1 t2 d2)
qed

lemma parse_float_decimal:
  assumes "ip \<noteq> []" "fp \<noteq> []" "\<forall>c\<in>set ip. is_digit c" "\<forall>c\<in>set fp. is_digit c"
  shows "\<exists>v. parse_float (ip @ CHR ''.'' # fp) = Inr v"
proof -
  let ?m = "ip @ CHR ''.'' # fp"
  obtain d ds where ip: "ip = d # ds" using assms(1) by (cases ip) auto
  have d: "is_digit d" using assms(3) ip by simp
  have l: "is_digit (last ?m)" using assms(2,4) by simp
  have "\<forall>c\<in>set ?m. c \<noteq> CHR ''_''"
    using assms(3,4) digit_plain by auto
  then have u: "remove_underscores ?m = Some ?m"
    by (rule remove_underscores_plain)
  have s: "strip ?m = ?m"
    using d l digit_plain by (intro strip_plain) (simp_all add: ip)
  have sg: "split_sign ?m = (False, ?m)"
    using d digit_plain by (simp add: ip)
  have w: "map ascii_lower ?m = d # map ascii_lower (ds @ CHR ''.'' # fp)"
    using d digit_plain by (simp add: ip)
  have nw: "map ascii_lower ?m \<noteq> ''inf'' \<and> map ascii_lower ?m \<noteq> ''infinity''
      \<and> map ascii_lower ?m \<noteq> ''nan''"
    unfolding w using d by (auto simp: is_digit_def)
  show ?thesis
    using nw by (simp add: parse_float_def u s sg float_number_decimal [OF assms])
qed

lemma match_here_shape:
  "match_here s = Some m \<Longrightarrow>
     \<exists>ip fp. m = ip @ CHR ''.'' # fp \<and> ip \<noteq> [] \<and> fp \<noteq> []
        \<and> (\<forall>c\<in>set ip. is_digit c) \<and> (\<forall>c\<in>set fp. is_digit c)"
  by (auto simp: match_here_def Let_def split: if_splits list.splits dest: set_takeWhileD)

lemma extract_decimal_shape:
  "extract_decimal s = Some m \<Longrightarrow>
     \<exists>ip fp. m = ip @ CHR ''.'' # fp \<and> ip \<noteq> [] \<and> fp \<noteq> []
        \<and> (\<forall>c\<in>set ip. is_digit c) \<and> (\<forall>c\<in>set fp. is_digit c)"
proof (induction s)
  case Nil
  then show ?case by simp
next
  case (Cons c cs)
  show ?case
  proof (cases "match_here (c # cs)")
    case None
    with Cons show ?thesis by simp
  next
    case (Some m')
    with Cons.prems have "m' = m" by simp
    with Some show ?thesis by (auto dest: match_here_shape)
  qed
qed

lemma clean_rating_total: "\<exists>v. clean_rating cell = Inr v"
proof (cases cell)
  case None
  then show ?thesis by (simp add: clean_rating_def)
next
  case (Some s)
  show ?thesis
  proof (cases "extract_decimal s")
    case None
    with Some show ?thesis by (simp add: clean_rating_def)
  next
    case (Some m)
    from extract_decimal_shape [OF this] obtain ip fp where
      "m = ip @ CHR ''.'' # fp" "ip \<noteq> []" "fp \<noteq> []"
      "\<forall>c\<in>set ip. is_digit c" "\<forall>c\<in>set fp. is_digit c"
      by blast
    with parse_float_decimal [of ip fp] Some \<open>cell = Some s\<close> show ?thesis
      by (simp add: clean_rating_def)
  qed
qed

subsection \<open>Dates\<close>

lemma raise_mode_raises:
  "parse s = None \<Longrightarrow> to_datetime parse Raise [Some s] = Inl ValueError"
  by (simp add: to_datetime_def convert_date_def)

lemma to_datetime_coerce_nth:
  assumes "to_datetime parse Coerce column = Inr dates" and "i < length column"
  shows "dates ! i = (case column ! i of None \<Rightarrow> None | Some s \<Rightarrow> parse s)"
  using traverse_Inr_D [OF assms(1) [unfolded to_datetime_def]] assms(2)
  by (simp add: convert_date_coerce)

text \<open>
  Claim C8. Whatever the date texts are and whatever the parser makes of them, the
  load succeeds when the price and identifier cells convert: no date raises. Each row
  then carries the parser's answer for its date, missing where the text is no date or
  the cell is empty; its year and month are those of the date, missing exactly when
  the date is. (With \<open>errors="raise"\<close> a text that is no date would raise:
  \<open>raise_mode_raises\<close>.)
\<close>

theorem lenient_dates:
  assumes prices: "\<forall>r\<in>set raw. \<exists>p. clean_price (raw_price r) = Inr p"
    and ranks: "\<forall>r\<in>set raw. \<exists>k. clean_rank (raw_id r) = Inr k"
  shows "\<exists>df. load_data parse_date (Some raw) = Inr df \<and> length df = length raw
     \<and> (\<forall>i<length raw.
           Publishing_date (df ! i)
             = (case raw_Publishing_date (raw ! i) of
                  None \<Rightarrow> None
                | Some s \<Rightarrow> parse_date (map raw_Publishing_date raw) s)
           \<and> Year (df ! i) = map_option dt_year (Publishing_date (df ! i))
           \<and> Month (df ! i) = map_option dt_month (Publishing_date (df ! i))
           \<and> (Year (df ! i) = None \<longleftrightarrow> Publishing_date (df ! i) = None)
           \<and> (Month (df ! i) = None \<longleftrightarrow> Publishing_date (df ! i) = None))"
proof -
  let ?col = "map raw_Publishing_date raw"
  obtain ratings where ra: "traverse clean_rating (map raw_Rating raw) = Inr ratings"
    using traverse_total [of "map raw_Rating raw" clean_rating] clean_rating_total by blast
  obtain ps where pr: "traverse clean_price (map raw_price raw) = Inr ps"
    using traverse_total [of "map raw_price raw" clean_price] prices by auto
  obtain ks where rk: "traverse clean_rank (map raw_id raw) = Inr ks"
    using traverse_total [of "map raw_id raw" clean_rank] ranks by auto
  obtain dates where da: "to_datetime (parse_date ?col) Coerce ?col = Inr dates"
    using to_datetime_coerce by blast
  let ?df = "map (\<lambda>(r, rating, p, rk, d). make_row r rating p rk d)
               (zip raw (zip ratings (zip ps (zip ks dates))))"
  have load: "load_data parse_date (Some raw) = Inr ?df"
    by (simp add: load_data_def ra pr rk da)
  have lens: "length ratings = length raw" "length ps = length raw" "length ks = length raw"
      "length dates = length raw"
    using traverse_Inr_D [OF ra] traverse_Inr_D [OF pr] traverse_Inr_D [OF rk]
      traverse_Inr_D [OF da [unfolded to_datetime_def]] by simp_all
  have len: "length ?df = length raw"
    by (simp add: lens)
  have row: "?df ! i = make_row (raw ! i) (ratings ! i) (ps ! i) (ks ! i) (dates ! i)"
    if "i < length raw" for i
    using that by (simp add: lens)
  have date: "dates ! i = (case raw_Publishing_date (raw ! i) of
                  None \<Rightarrow> None | Some s \<Rightarrow> parse_date ?col s)"
    if "i < length raw" for i
    using to_datetime_coerce_nth [OF da, of i] that by simp
  have rows: "\<forall>i<length raw.
           Publishing_date (?df ! i)
             = (case raw_Publishing_date (raw ! i) of
                  None \<Rightarrow> None
                | Some s \<Rightarrow> parse_date ?col s)
           \<and> Year (?df ! i) = map_option dt_year (Publishing_date (?df ! i))
           \<and> Month (?df ! i) = map_option dt_month (Publishing_date (?df ! i))
           \<and> (Year (?df ! i) = None \<longleftrightarrow> Publishing_date (?df ! i) = None)
           \<and> (Month (?df ! i) = None \<longleftrightarrow> Publishing_date (?df ! i) = None)"
  proof (intro allI impI)
    fix i assume i: "i < length raw"
    show "Publishing_date (?df ! i)
             = (case raw_Publishing_date (raw ! i) of
                  None \<Rightarrow> None
                | Some s \<Rightarrow> parse_date ?col s)
           \<and> Year (?df ! i) = map_option dt_year (Publishing_date (?df ! i))
           \<and> Month (?df ! i) = map_option dt_month (Publishing_date (?df ! i))
           \<and> (Year (?df ! i) = None \<longleftrightarrow> Publishing_date (?df ! i) = None)
           \<and> (Month (?df ! i) = None \<longleftrightarrow> Publishing_date (?df ! i) = None)"
      unfolding row [OF i] by (simp add: make_row_def date [OF i])
  qed
  show ?thesis
    by (rule exI [of _ ?df]) (intro conjI load len rows)
qed

theorem lenient_dates_witness:
  "load_data iso_parser (Some [bad_date_raw])
     = Inr [example_book\<lparr>Publishing_date := None, Year := None, Month := None\<rparr>]
   \<and> raw_Publishing_date bad_date_raw = Some ''sometime in spring''
   \<and> iso_parser (map raw_Publishing_date [bad_date_raw]) ''sometime in spring'' = None
   \<and> Publishing_date (example_book\<lparr>Publishing_date := None, Year := None, Month := None\<rparr>) = None"
proof -
  let ?b = "example_book\<lparr>Publishing_date := None, Year := None, Month := None\<rparr>"
  have d: "iso_parser (map raw_Publishing_date [bad_date_raw]) ''sometime in spring'' = None"
    by (simp add: iso_parser_def iso_date_def)
  have t: "raw_Publishing_date bad_date_raw = Some ''sometime in spring''"
    by (simp add: bad_date_raw_def)
  have l: "load_data iso_parser (Some [bad_date_raw]) = Inr [?b]"
    by (simp add: load_data_def to_datetime_def convert_date_coerce make_row_def
          bad_date_raw_def example_raw_def example_book_def iso_parser_def iso_date_def fillna_def
          clean_rating_example clean_price_example clean_rank_example times_opt_def times_int_def)
  have p: "\<forall>r\<in>set [bad_date_raw]. \<exists>p. clean_price (raw_price r) = Inr p"
    by (simp add: bad_date_raw_def example_raw_def clean_price_example)
  have k: "\<forall>r\<in>set [bad_date_raw]. \<exists>k. clean_rank (raw_id r) = Inr k"
    by (simp add: bad_date_raw_def example_raw_def clean_rank_example)
  from lenient_dates [OF p k, of iso_parser] obtain df where
    all: "load_data iso_parser (Some [bad_date_raw]) = Inr df \<and> length df = length [bad_date_raw]
     \<and> (\<forall>i<length [bad_date_raw].
           Publishing_date (df ! i)
             = (case raw_Publishing_date ([bad_date_raw] ! i) of
                  None \<Rightarrow> None
                | Some s \<Rightarrow> iso_parser (map raw_Publishing_date [bad_date_raw]) s)
           \<and> Year (df ! i) = map_option dt_year (Publishing_date (df ! i))
           \<and> Month (df ! i) = map_option dt_month (Publishing_date (df ! i))
           \<and> (Year (df ! i) = None \<longleftrightarrow> Publishing_date (df ! i) = None)
           \<and> (Month (df ! i) = None \<longleftrightarrow> Publishing_date (df ! i) = None))" ..
  from all have df: "load_data iso_parser (Some [bad_date_raw]) = Inr df"
    by (rule conjunct1)
  from df l have eq: "df = [?b]" by simp
  from all have "Publishing_date (df ! 0)
             = (case raw_Publishing_date ([bad_date_raw] ! 0) of
                  None \<Rightarrow> None
                | Some s \<Rightarrow> iso_parser (map raw_Publishing_date [bad_date_raw]) s)"
    by simp
  with eq t d have n: "Publishing_date ?b = None" by simp
  show ?thesis
    by (intro conjI l t d n)
qed

section \<open>Properties of the filter engine\<close>

lemmas filter_eval =
  genre_mask_def author_mask_def notna_def isin_def between_def
  ge_cell_def eq_cell_def Let_def sample_book_def all_pass_def

lemma in_filtered_df:
  "r \<in> set (filtered_df df sel) \<longleftrightarrow>
     r \<in> set df \<and> genre_mask sel r \<and> author_mask sel r
     \<and> between (price r) (fst (price_range sel)) (snd (price_range sel))
     \<and> ge_cell (Rating r) (rating_filter sel)
     \<and> (format_filter sel \<noteq> ''All Formats'' \<longrightarrow> eq_cell (form r) (format_filter sel))
     \<and> (case year_filter sel of All_Years \<Rightarrow> True | Year_is y \<Rightarrow> eq_cell (Year r) y)"
  by (cases "year_filter sel") (auto simp: filtered_df_def Let_def)

lemma ge_cell_iff: "ge_cell c t \<longleftrightarrow> (\<exists>x. c = Some x \<and> Fin t \<le> x)"
  by (cases c) (simp_all add: ge_cell_def)

lemma genre_mask_present: "genre_mask sel r \<Longrightarrow> Genre r \<noteq> None"
  by (auto simp: genre_mask_def notna_def isin_def split: if_splits option.splits)

lemma author_mask_present: "author_mask sel r \<Longrightarrow> Author r \<noteq> None"
  by (auto simp: author_mask_def notna_def isin_def split: if_splits option.splits)

lemma between_present: "between c lo hi \<Longrightarrow> c \<noteq> None"
  by (auto simp: between_def split: option.splits)

text \<open>
  Claim C1. A row of the data set that passes the other five filters is in the filtered
  subset exactly when its rating is present and at least the minimum rating; a row
  whose rating is missing is not in the filtered subset when the minimum rating is
  above 0.
\<close>

theorem rating_filter_semantics:
  "(r \<in> set (filtered_df df sel) \<longleftrightarrow>
      (r \<in> set df \<and> genre_mask sel r \<and> author_mask sel r
       \<and> between (price r) (fst (price_range sel)) (snd (price_range sel))
       \<and> (format_filter sel \<noteq> ''All Formats'' \<longrightarrow> eq_cell (form r) (format_filter sel))
       \<and> (case year_filter sel of All_Years \<Rightarrow> True | Year_is y \<Rightarrow> eq_cell (Year r) y))
      \<and> (\<exists>x. Rating r = Some x \<and> Fin (rating_filter sel) \<le> x))
   \<and> (0 < rating_filter sel \<and> Rating r = None \<longrightarrow> r \<notin> set (filtered_df df sel))"
  unfolding in_filtered_df ge_cell_iff by auto

theorem rating_filter_semantics_witness:
  "0 < rating_filter (all_pass\<lparr>rating_filter := 4\<rparr>)
   \<and> Rating unrated_book = None
   \<and> unrated_book \<notin> set (filtered_df [rated_book, unrated_book] (all_pass\<lparr>rating_filter := 4\<rparr>))
   \<and> rated_book \<in> set (filtered_df [rated_book, unrated_book] (all_pass\<lparr>rating_filter := 4\<rparr>))"
proof -
  let ?sel = "all_pass\<lparr>rating_filter := 4\<rparr>"
  let ?df = "[rated_book, unrated_book]"
  have t: "0 < rating_filter ?sel"
    by (simp add: all_pass_def)
  have m: "Rating unrated_book = None"
    by (simp add: unrated_book_def sample_book_def)
  from rating_filter_semantics [of unrated_book ?df ?sel] t m
  have out: "unrated_book \<notin> set (filtered_df ?df ?sel)"
    by blast
  have others: "rated_book \<in> set ?df \<and> genre_mask ?sel rated_book \<and> author_mask ?sel rated_book
      \<and> between (price rated_book) (fst (price_range ?sel)) (snd (price_range ?sel))
      \<and> (format_filter ?sel \<noteq> ''All Formats'' \<longrightarrow> eq_cell (form rated_book) (format_filter ?sel))
      \<and> (case year_filter ?sel of All_Years \<Rightarrow> True | Year_is y \<Rightarrow> eq_cell (Year rated_book) y)"
    by (simp add: filter_eval rated_book_def)
  have rating: "\<exists>x. Rating rated_book = Some x \<and> Fin (rating_filter ?sel) \<le> x"
    by (rule exI [of _ "Fin (9 / 2)"]) (simp add: rated_book_def sample_book_def all_pass_def)
  from rating_filter_semantics [of rated_book ?df ?sel] others rating
  have "rated_book \<in> set (filtered_df ?df ?sel)"
    by blast
  with t m out show ?thesis by blast
qed

text \<open>
  Claim C9. Whatever the selection, every row of the filtered subset has a genre, an
  author, a rating and a price: each of the four tests is false on a missing cell, the
  rating test also at the minimum rating 0.
\<close>

theorem filtered_rows_complete:
  "r \<in> set (filtered_df df sel) \<Longrightarrow>
     Genre r \<noteq> None \<and> Author r \<noteq> None \<and> Rating r \<noteq> None \<and> price r \<noteq> None"
  unfolding in_filtered_df
  by (auto dest: genre_mask_present author_mask_present between_present simp: ge_cell_iff)

theorem filtered_rows_complete_witness:
  "rated_book \<in> set (filtered_df [rated_book, unrated_book] all_pass)
   \<and> Genre rated_book \<noteq> None \<and> Author rated_book \<noteq> None
   \<and> Rating rated_book \<noteq> None \<and> price rated_book \<noteq> None
   \<and> rating_filter all_pass = 0
   \<and> unrated_book \<notin> set (filtered_df [rated_book, unrated_book] all_pass)"
proof -
  have a: "rated_book \<in> set (filtered_df [rated_book, unrated_book] all_pass)"
    by (simp add: filtered_df_def filter_eval rated_book_def unrated_book_def)
  have b: "unrated_book \<notin> set (filtered_df [rated_book, unrated_book] all_pass)"
    using filtered_rows_complete [of unrated_book "[rated_book, unrated_book]" all_pass]
    by (auto simp: sample_book_def unrated_book_def)
  have c: "rating_filter all_pass = 0"
    by (simp add: all_pass_def)
  from a b c filtered_rows_complete [OF a] show ?thesis by blast
qed

lemma filtered_df_as_filter:
  "filtered_df df sel =
     filter (\<lambda>r. genre_mask sel r \<and> author_mask sel r
       \<and> between (price r) (fst (price_range sel)) (snd (price_range sel))
       \<and> ge_cell (Rating r) (rating_filter sel)
       \<and> (format_filter sel \<noteq> ''All Formats'' \<longrightarrow> eq_cell (form r) (format_filter sel))
       \<and> (case year_filter sel of All_Years \<Rightarrow> True | Year_is y \<Rightarrow> eq_cell (Year r) y)) df"
  by (cases "year_filter sel") (auto simp: filtered_df_def Let_def intro!: filter_cong)

lemma length_filter_mono:
  "(\<And>x. x \<in> set xs \<Longrightarrow> P x \<Longrightarrow> Q x) \<Longrightarrow> length (filter P xs) \<le> length (filter Q xs)"
  by (induction xs) auto

lemma genre_mask_mono:
  "narrowed_labels ''All Genres'' (genre_filter new) (genre_filter old) \<Longrightarrow>
   genre_mask new r \<Longrightarrow> genre_mask old r"
  by (cases "Genre r")
     (auto simp: narrowed_labels_def genre_mask_def notna_def isin_def split: if_splits)

lemma author_mask_mono:
  "narrowed_labels ''All Authors'' (author_filter new) (author_filter old) \<Longrightarrow>
   author_mask new r \<Longrightarrow> author_mask old r"
  by (cases "Author r")
     (auto simp: narrowed_labels_def author_mask_def notna_def isin_def split: if_splits)

lemma between_mono: "lo \<le> lo' \<Longrightarrow> hi' \<le> hi \<Longrightarrow> between c lo' hi' \<Longrightarrow> between c lo hi"
  by (cases c)
     (auto simp: between_def
        intro: order_trans [of "Fin lo" "Fin lo'"] order_trans [of _ "Fin hi'" "Fin hi"])

lemma ge_cell_mono: "t \<le> t' \<Longrightarrow> ge_cell c t' \<Longrightarrow> ge_cell c t"
  by (cases c) (auto simp: ge_cell_def intro: order_trans [of "Fin t" "Fin t'"])

text \<open>
  Claim C5, as the specification states it, fails: taking the last label out of the
  genre multiselect makes the genre set smaller, and the empty set lets every genre
  pass, so the filtered subset grows from one row to two.
\<close>

theorem empty_genre_set_counterexample:
  "set (genre_filter (all_pass\<lparr>genre_filter := []\<rparr>))
     \<subset> set (genre_filter (all_pass\<lparr>genre_filter := [''Fiction'']\<rparr>))
   \<and> length (filtered_df [rated_book, romance_book] (all_pass\<lparr>genre_filter := [''Fiction'']\<rparr>)) = 1
   \<and> length (filtered_df [rated_book, romance_book] (all_pass\<lparr>genre_filter := []\<rparr>)) = 2"
  by (auto simp: filtered_df_def filter_eval rated_book_def romance_book_def)

text \<open>
  Claim C5, amended. When a selection is narrowed (a higher minimum rating, a tighter
  price range, a specific format or year in place of all, a genre or author set that
  is a part of the former one and not empty) the filtered subset does not get larger.
\<close>

theorem narrowing_monotone:
  assumes "narrowed new old"
  shows "length (filtered_df df new) \<le> length (filtered_df df old)"
  unfolding filtered_df_as_filter
proof (rule length_filter_mono, intro conjI)
  fix r
  assume r: "genre_mask new r \<and> author_mask new r
       \<and> between (price r) (fst (price_range new)) (snd (price_range new))
       \<and> ge_cell (Rating r) (rating_filter new)
       \<and> (format_filter new \<noteq> ''All Formats'' \<longrightarrow> eq_cell (form r) (format_filter new))
       \<and> (case year_filter new of All_Years \<Rightarrow> True | Year_is y \<Rightarrow> eq_cell (Year r) y)"
  from assms r show "genre_mask old r"
    by (auto simp: narrowed_def intro: genre_mask_mono)
  from assms r show "author_mask old r"
    by (auto simp: narrowed_def intro: author_mask_mono)
  from assms r show "between (price r) (fst (price_range old)) (snd (price_range old))"
    by (auto simp: narrowed_def intro: between_mono)
  from assms r show "ge_cell (Rating r) (rating_filter old)"
    by (auto simp: narrowed_def intro: ge_cell_mono)
  from assms r show "format_filter old \<noteq> ''All Formats'' \<longrightarrow> eq_cell (form r) (format_filter old)"
    by (auto simp: narrowed_def)
  from assms r show "case year_filter old of All_Years \<Rightarrow> True | Year_is y \<Rightarrow> eq_cell (Year r) y"
    by (auto simp: narrowed_def split: year_choice.splits)
qed

theorem narrowing_monotone_witness:
  "narrowed (all_pass\<lparr>genre_filter := [''Fiction''], rating_filter := 4\<rparr>)
            (all_pass\<lparr>genre_filter := [''Fiction'', ''Romance'']\<rparr>)
   \<and> length (filtered_df [rated_book, romance_book] (all_pass\<lparr>genre_filter := [''Fiction'', ''Romance'']\<rparr>)) = 2
   \<and> length (filtered_df [rated_book, romance_book] (all_pass\<lparr>genre_filter := [''Fiction''], rating_filter := 4\<rparr>)) \<le> 2"
proof -
  have n: "narrowed (all_pass\<lparr>genre_filter := [''Fiction''], rating_filter := 4\<rparr>)
            (all_pass\<lparr>genre_filter := [''Fiction'', ''Romance'']\<rparr>)"
    by (simp add: narrowed_def narrowed_labels_def all_pass_def)
  have l: "length (filtered_df [rated_book, romance_book] (all_pass\<lparr>genre_filter := [''Fiction'', ''Romance'']\<rparr>)) = 2"
    by (simp add: filtered_df_def filter_eval rated_book_def romance_book_def)
  from narrowing_monotone [OF n, of "[rated_book, romance_book]"] n l show ?thesis by simp
qed

section \<open>Properties of the aggregation engine\<close>

text \<open>
  Claim C6. When the filtered subset is empty the KPIs are computed (the function is
  total: nothing in it raises) and are: no books, no reviews, no revenue, and the two
  means missing (NaN).
\<close>

theorem empty_subset_kpis:
  "filtered_df df sel = [] \<Longrightarrow>
     compute_kpis (filtered_df df sel) =
       \<lparr> total_books = 0, avg_rating = None, total_reviews = 0,
         avg_price = None, total_revenue = Some (Fin 0) \<rparr>"
  by (simp add: compute_kpis_def mean_def round2_def sum_col_def count_cells_def dropna_def)

theorem empty_subset_kpis_witness:
  "filtered_df [example_book] (all_pass\<lparr>rating_filter := 46 / 10\<rparr>) = []
   \<and> compute_kpis (filtered_df [example_book] (all_pass\<lparr>rating_filter := 46 / 10\<rparr>)) =
       \<lparr> total_books = 0, avg_rating = None, total_reviews = 0,
         avg_price = None, total_revenue = Some (Fin 0) \<rparr>"
proof -
  have e: "filtered_df [example_book] (all_pass\<lparr>rating_filter := 46 / 10\<rparr>) = []"
    by (simp add: filtered_df_def filter_eval example_book_def)
  from e empty_subset_kpis [OF e] show ?thesis by blast
qed

lemma count_Cons: "count_cells (c # cs) = (case c of None \<Rightarrow> 0 | Some v \<Rightarrow> 1) + count_cells cs"
  by (simp add: count_cells_def dropna_def split: option.splits)

lemma count_Nil: "count_cells [] = 0"
  by (simp add: count_cells_def dropna_def)

lemma count_map_filter:
  "count_cells (map f rows) = length (filter (\<lambda>r. f r \<noteq> None) rows)"
  by (induction rows) (auto simp: count_Cons count_cells_def dropna_def)

lemma set_dropna: "set (dropna cs) = {v. Some v \<in> set cs}"
  by (induction cs) (auto simp: dropna_def split: option.splits)

lemma sum_over_groups:
  assumes "finite S" and "\<forall>r\<in>set rows. \<exists>k\<in>S. col r = Some k"
  shows "(\<Sum>k\<in>S. count_cells (map f (filter (\<lambda>r. eq_cell (col r) k) rows))) = count_cells (map f rows)"
  using assms(2)
proof (induction rows)
  case Nil
  then show ?case by (simp add: count_cells_def dropna_def)
next
  case (Cons r rows)
  then obtain k where k: "k \<in> S" "col r = Some k" by auto
  have "(\<Sum>j\<in>S. count_cells (map f (filter (\<lambda>r. eq_cell (col r) j) (r # rows))))
      = (\<Sum>j\<in>S. (if j = k then count_cells [f r] else 0)
                 + count_cells (map f (filter (\<lambda>r. eq_cell (col r) j) rows)))"
    by (rule sum.cong) (auto simp: k eq_cell_def count_Cons count_Nil)
  also have "\<dots> = count_cells [f r] + (\<Sum>j\<in>S. count_cells (map f (filter (\<lambda>r. eq_cell (col r) j) rows)))"
    using assms(1) k(1) by (simp add: sum.distrib)
  also have "\<dots> = count_cells (map f (r # rows))"
    using Cons by (simp add: count_Cons count_Nil)
  finally show ?case .
qed

lemma sum_groupby_count:
  assumes "\<forall>r\<in>set rows. col r \<noteq> None"
  shows "sum_list (map (\<lambda>g. count_cells (map f (snd g))) (groupby col rows)) = count_cells (map f rows)"
proof -
  let ?ks = "sort (remdups (dropna (map col rows)))"
  have d: "distinct ?ks" by simp
  have cover: "\<forall>r\<in>set rows. \<exists>k\<in>set ?ks. col r = Some k"
  proof
    fix r assume r: "r \<in> set rows"
    with assms obtain k where k: "col r = Some k" by auto
    from r have "col r \<in> set (map col rows)" by simp
    with k have "k \<in> set ?ks" by (simp add: set_dropna)
    with k show "\<exists>k\<in>set ?ks. col r = Some k" by blast
  qed
  have "sum_list (map (\<lambda>g. count_cells (map f (snd g))) (groupby col rows))
      = sum_list (map (\<lambda>k. count_cells (map f (filter (\<lambda>r. eq_cell (col r) k) rows))) ?ks)"
    by (simp add: groupby_def comp_def)
  also have "\<dots> = (\<Sum>k\<in>set ?ks. count_cells (map f (filter (\<lambda>r. eq_cell (col r) k) rows)))"
    using d by (rule sum_list_distinct_conv_sum_set)
  also have "\<dots> = count_cells (map f rows)"
    using cover by (intro sum_over_groups) auto
  finally show ?thesis .
qed

lemma filtered_has_genre: "r \<in> set (filtered_df df sel) \<Longrightarrow> Genre r \<noteq> None"
  unfolding in_filtered_df by (auto dest: genre_mask_present)

lemma six_filtered: "filtered_df six_books all_pass = six_books"
  by (simp add: filtered_df_def filter_eval six_books_def)

text \<open>
  What the counts of the genre table add up to: the number of rows of the filtered
  subset that have a book name. They add up to the number of rows when every row has
  a book name.
\<close>

lemma genre_counts_sum:
  "sum_list (map Book_Count (genre_stats (filtered_df df sel)))
     = length (filter (\<lambda>r. Book_name r \<noteq> None) (filtered_df df sel))
   \<and> ((\<forall>r\<in>set (filtered_df df sel). Book_name r \<noteq> None) \<longrightarrow>
        sum_list (map Book_Count (genre_stats (filtered_df df sel))) = length (filtered_df df sel))"
proof -
  have "sum_list (map Book_Count (genre_stats (filtered_df df sel)))
      = sum_list (map (\<lambda>g. count_cells (map Book_name (snd g))) (groupby Genre (filtered_df df sel)))"
    by (simp add: genre_stats_def agg_def comp_def)
  also have "\<dots> = count_cells (map Book_name (filtered_df df sel))"
    by (rule sum_groupby_count) (auto dest: filtered_has_genre)
  finally have eq: "sum_list (map Book_Count (genre_stats (filtered_df df sel)))
     = length (filter (\<lambda>r. Book_name r \<noteq> None) (filtered_df df sel))"
    by (simp add: count_map_filter)
  then show ?thesis by (auto simp: filter_id_conv)
qed

text \<open>
  Claim C3. The script misses it. The table's \<open>Book Count\<close> is the \<open>count\<close> of the
  column \<open>Book name\<close>, the number of its present cells, where the KPI \<open>total_books\<close>
  takes the number of rows. On six rows that all pass the filters, one of them
  without a name, the KPI is 6 and the counts of the genre table are 3 and 2, which
  add up to 5. (The nameless row is not among the five most reviewed rows, whose
  names the script prints.)
\<close>

theorem genre_counts_miss_nameless_row:
  "length (filtered_df six_books all_pass) = 6
   \<and> total_books (compute_kpis (filtered_df six_books all_pass)) = 6
   \<and> map Book_Count (genre_stats (filtered_df six_books all_pass)) = [3, 2]
   \<and> sum_list (map Book_Count (genre_stats (filtered_df six_books all_pass))) = 5
   \<and> map Book_name (take 5 (top_reviews (filtered_df six_books all_pass)))
       = [Some ''First Book'', Some ''Second Book'', Some ''Third Book'',
          Some ''Fourth Book'', Some ''Fifth Book'']"
  unfolding six_filtered
  by (simp add: genre_stats_def groupby_def agg_def count_cells_def dropna_def eq_cell_def
        compute_kpis_def top_reviews_def nlargest_def sort_desc_def notna_def
        six_books_def sample_book_def)

lemma sort_desc_stable:
  "filter (\<lambda>p. fst p = k) (sort_desc kvs) = filter (\<lambda>p. fst p = k) kvs"
  by (simp add: sort_desc_def rev_filter [symmetric] sort_key_stable)

lemma sort_desc_sorted: "sorted_wrt (\<lambda>p q. fst q \<le> fst p) (sort_desc kvs)"
proof -
  have "sorted (map fst (sort_key fst (rev kvs)))"
    by (rule sorted_sort_key)
  then have "sorted_wrt (\<lambda>p q. fst p \<le> fst q) (sort_key fst (rev kvs))"
    by (simp add: sorted_map)
  then show ?thesis
    by (simp add: sort_desc_def sorted_wrt_rev)
qed

lemma mset_sort_desc: "mset (sort_desc kvs) = mset kvs"
  by (simp add: sort_desc_def)

lemma set_sort_desc: "set (sort_desc kvs) = set kvs"
  by (simp add: sort_desc_def)

text \<open>The rows of a frame that have a value in the column, each with its value.\<close>

lemma dropped_keys:
  "p \<in> set (concat (map (\<lambda>r. case col r of None \<Rightarrow> [] | Some k \<Rightarrow> [(k, r)]) rows))
   \<Longrightarrow> col (snd p) = Some (fst p)"
  by (induction rows) (auto split: option.splits)

lemma dropped_filter:
  "map snd (filter (\<lambda>p. fst p = k)
      (concat (map (\<lambda>r. case col r of None \<Rightarrow> [] | Some k \<Rightarrow> [(k, r)]) rows)))
   = filter (\<lambda>r. col r = Some k) rows"
  by (induction rows) (auto split: option.splits)

lemma dropped_mset:
  "mset (map snd (concat (map (\<lambda>r. case col r of None \<Rightarrow> [] | Some k \<Rightarrow> [(k, r)]) rows)))
   + mset (filter (\<lambda>r. \<not> notna (col r)) rows) = mset rows"
  by (induction rows) (auto simp: notna_def split: option.splits)

lemma nan_filter_None:
  "filter (\<lambda>r. col r = None) (filter (\<lambda>r. \<not> notna (col r)) rows) = filter (\<lambda>r. col r = None) rows"
  by (induction rows) (simp_all add: notna_def)

lemma nan_filter_Some:
  "filter (\<lambda>r. col r = Some k) (filter (\<lambda>r. \<not> notna (col r)) rows) = []"
  by (induction rows) (simp_all add: notna_def)

lemma nan_rows_None: "r \<in> set (filter (\<lambda>r. \<not> notna (col r)) rows) \<Longrightarrow> col r = None"
  by (cases "col r") (simp_all add: notna_def)

lemma keyed_filter_None:
  assumes "\<And>p. p \<in> set kvs \<Longrightarrow> col (snd p) = Some (fst p)"
  shows "filter (\<lambda>r. col r = None) (map snd kvs) = []"
  using assms by (induction kvs) simp_all

lemma keyed_filter_Some:
  assumes "\<And>p. p \<in> set kvs \<Longrightarrow> col (snd p) = Some (fst p)"
  shows "filter (\<lambda>r. col r = Some k) (map snd kvs) = map snd (filter (\<lambda>p. fst p = k) kvs)"
  using assms by (induction kvs) simp_all

lemma keyed_sorted:
  assumes "\<And>p. p \<in> set kvs \<Longrightarrow> col (snd p) = Some (fst p)"
    and "sorted_wrt (\<lambda>p q. fst q \<le> fst p) kvs"
  shows "sorted_wrt (\<lambda>a b. metric_ge (col a) (col b)) (map snd kvs)"
  using assms by (induction kvs) (simp_all add: metric_ge_def)

lemma nan_sorted:
  assumes "\<And>r. r \<in> set rs \<Longrightarrow> col r = None"
  shows "sorted_wrt (\<lambda>a b. metric_ge (col a) (col b)) rs"
  using assms by (induction rs) (simp_all add: metric_ge_def)

lemma nlargest_stable:
  "\<exists>ys. nlargest n col rows = take n ys \<and> mset ys = mset rows
        \<and> sorted_wrt (\<lambda>a b. metric_ge (col a) (col b)) ys
        \<and> (\<forall>c. filter (\<lambda>r. col r = c) ys = filter (\<lambda>r. col r = c) rows)"
proof -
  let ?D = "concat (map (\<lambda>r. case col r of None \<Rightarrow> [] | Some k \<Rightarrow> [(k, r)]) rows)"
  let ?N = "filter (\<lambda>r. \<not> notna (col r)) rows"
  let ?S = "sort_desc ?D"
  let ?ys = "map snd ?S @ ?N"
  have key: "col (snd p) = Some (fst p)" if "p \<in> set ?S" for p
    using that unfolding set_sort_desc by (rule dropped_keys)
  have 1: "nlargest n col rows = take n ?ys"
    unfolding nlargest_def Let_def ..
  have "mset ?ys = mset (map snd ?S) + mset ?N"
    by (simp only: mset_append)
  also have "mset (map snd ?S) = mset (map snd ?D)"
    by (simp only: mset_map mset_sort_desc)
  also have "mset (map snd ?D) + mset ?N = mset rows"
    by (rule dropped_mset)
  finally have 2: "mset ?ys = mset rows" .
  have s1: "sorted_wrt (\<lambda>a b. metric_ge (col a) (col b)) (map snd ?S)"
    using key sort_desc_sorted by (rule keyed_sorted)
  have s2: "sorted_wrt (\<lambda>a b. metric_ge (col a) (col b)) ?N"
    by (rule nan_sorted) (rule nan_rows_None)
  have s3: "metric_ge (col a) (col b)" if "a \<in> set (map snd ?S)" and "b \<in> set ?N" for a b
    using nan_rows_None [OF that(2)] by (simp add: metric_ge_def)
  from s1 s2 s3 have 3: "sorted_wrt (\<lambda>a b. metric_ge (col a) (col b)) ?ys"
    unfolding sorted_wrt_append by blast
  have 4: "filter (\<lambda>r. col r = c) ?ys = filter (\<lambda>r. col r = c) rows" for c
  proof (cases c)
    case None
    have "filter (\<lambda>r. col r = None) ?ys
        = filter (\<lambda>r. col r = None) (map snd ?S) @ filter (\<lambda>r. col r = None) ?N"
      by (rule filter_append)
    also have "\<dots> = filter (\<lambda>r. col r = None) rows"
      by (simp only: keyed_filter_None [of ?S col, OF key] nan_filter_None append_Nil)
    finally show ?thesis unfolding None .
  next
    case (Some k)
    have "filter (\<lambda>r. col r = Some k) ?ys
        = filter (\<lambda>r. col r = Some k) (map snd ?S) @ filter (\<lambda>r. col r = Some k) ?N"
      by (rule filter_append)
    also have "\<dots> = map snd (filter (\<lambda>p. fst p = k) ?S)"
      by (simp only: keyed_filter_Some [of ?S col, OF key] nan_filter_Some append_Nil2)
    also have "\<dots> = filter (\<lambda>r. col r = Some k) rows"
      by (simp only: sort_desc_stable dropped_filter)
    finally show ?thesis unfolding Some .
  qed
  from 1 2 3 4 show ?thesis by blast
qed

lemma nlargest_tie:
  "col a = Some k \<Longrightarrow> col b = Some k \<Longrightarrow> nlargest 1 col [a, b] = [a]"
  by (simp add: nlargest_def sort_desc_def notna_def)

lemma top_authors_stable:
  "\<exists>ys. top_authors fd = take 15 ys \<and> mset ys = mset (author_stats fd)
        \<and> sorted_wrt (\<lambda>a b. Total_Reviews b \<le> Total_Reviews a) ys
        \<and> (\<forall>c. filter (\<lambda>r. Total_Reviews r = c) ys
                = filter (\<lambda>r. Total_Reviews r = c) (author_stats fd))"
proof -
  from nlargest_stable [of 15 "\<lambda>a. Some (Total_Reviews a)" "author_stats fd"]
  obtain ys where t: "top_authors fd = take 15 ys" and m: "mset ys = mset (author_stats fd)"
    and s: "sorted_wrt (\<lambda>a b. metric_ge (Some (Total_Reviews a)) (Some (Total_Reviews b))) ys"
    and f: "\<forall>c. filter (\<lambda>r. Some (Total_Reviews r) = c) ys
           = filter (\<lambda>r. Some (Total_Reviews r) = c) (author_stats fd)"
    unfolding top_authors_def by blast
  from s have s': "sorted_wrt (\<lambda>a b. Total_Reviews b \<le> Total_Reviews a) ys"
    by (simp add: metric_ge_def)
  have f': "filter (\<lambda>r. Total_Reviews r = c) ys
           = filter (\<lambda>r. Total_Reviews r = c) (author_stats fd)" for c
    using f [rule_format, of "Some c"] by simp
  from t m s' f' show ?thesis by blast
qed

text \<open>
  Claim C4. A top-N selection is the first N rows of a rearrangement of the frame that
  is in descending order of the metric (rows without a value last) and keeps rows of
  equal metric in their original order. This holds for \<open>nlargest\<close> with any N and
  column, and so for each of the script's four selections: the most reviewed, the
  best rated and the highest revenue books, and the top authors. In particular, of
  two rows with 100 reviews each, top 1 by reviews is the row that comes first.
\<close>

theorem top_n_stable:
  "(\<exists>ys. nlargest n col rows = take n ys \<and> mset ys = mset rows
        \<and> sorted_wrt (\<lambda>a b. metric_ge (col a) (col b)) ys
        \<and> (\<forall>c. filter (\<lambda>r. col r = c) ys = filter (\<lambda>r. col r = c) rows))
   \<and> (\<exists>ys. top_reviews fd = take 10 ys \<and> mset ys = mset fd
        \<and> sorted_wrt (\<lambda>a b. metric_ge (reviews_count a) (reviews_count b)) ys
        \<and> (\<forall>c. filter (\<lambda>r. reviews_count r = c) ys = filter (\<lambda>r. reviews_count r = c) fd))
   \<and> (\<exists>ys. top_rated fd = take 10 ys \<and> mset ys = mset fd
        \<and> sorted_wrt (\<lambda>a b. metric_ge (Rating a) (Rating b)) ys
        \<and> (\<forall>c. filter (\<lambda>r. Rating r = c) ys = filter (\<lambda>r. Rating r = c) fd))
   \<and> (\<exists>ys. top_revenue fd = take 10 ys \<and> mset ys = mset fd
        \<and> sorted_wrt (\<lambda>a b. metric_ge (Estimated_Revenue a) (Estimated_Revenue b)) ys
        \<and> (\<forall>c. filter (\<lambda>r. Estimated_Revenue r = c) ys
                = filter (\<lambda>r. Estimated_Revenue r = c) fd))
   \<and> (\<exists>ys. top_authors fd = take 15 ys \<and> mset ys = mset (author_stats fd)
        \<and> sorted_wrt (\<lambda>a b. Total_Reviews b \<le> Total_Reviews a) ys
        \<and> (\<forall>c. filter (\<lambda>r. Total_Reviews r = c) ys
                = filter (\<lambda>r. Total_Reviews r = c) (author_stats fd)))
   \<and> (reviews_count a = Some 100 \<and> reviews_count b = Some 100
        \<longrightarrow> nlargest 1 reviews_count [a, b] = [a])"
proof (intro conjI)
  show "\<exists>ys. nlargest n col rows = take n ys \<and> mset ys = mset rows
        \<and> sorted_wrt (\<lambda>a b. metric_ge (col a) (col b)) ys
        \<and> (\<forall>c. filter (\<lambda>r. col r = c) ys = filter (\<lambda>r. col r = c) rows)"
    by (rule nlargest_stable)
  show "\<exists>ys. top_reviews fd = take 10 ys \<and> mset ys = mset fd
        \<and> sorted_wrt (\<lambda>a b. metric_ge (reviews_count a) (reviews_count b)) ys
        \<and> (\<forall>c. filter (\<lambda>r. reviews_count r = c) ys = filter (\<lambda>r. reviews_count r = c) fd)"
    unfolding top_reviews_def by (rule nlargest_stable)
  show "\<exists>ys. top_rated fd = take 10 ys \<and> mset ys = mset fd
        \<and> sorted_wrt (\<lambda>a b. metric_ge (Rating a) (Rating b)) ys
        \<and> (\<forall>c. filter (\<lambda>r. Rating r = c) ys = filter (\<lambda>r. Rating r = c) fd)"
    unfolding top_rated_def by (rule nlargest_stable)
  show "\<exists>ys. top_revenue fd = take 10 ys \<and> mset ys = mset fd
        \<and> sorted_wrt (\<lambda>a b. metric_ge (Estimated_Revenue a) (Estimated_Revenue b)) ys
        \<and> (\<forall>c. filter (\<lambda>r. Estimated_Revenue r = c) ys
                = filter (\<lambda>r. Estimated_Revenue r = c) fd)"
    unfolding top_revenue_def by (rule nlargest_stable)
  show "\<exists>ys. top_authors fd = take 15 ys \<and> mset ys = mset (author_stats fd)
        \<and> sorted_wrt (\<lambda>a b. Total_Reviews b \<le> Total_Reviews a) ys
        \<and> (\<forall>c. filter (\<lambda>r. Total_Reviews r = c) ys
                = filter (\<lambda>r. Total_Reviews r = c) (author_stats fd))"
    by (rule top_authors_stable)
  show "reviews_count a = Some 100 \<and> reviews_count b = Some 100
        \<longrightarrow> nlargest 1 reviews_count [a, b] = [a]"
    by (intro impI, elim conjE) (rule nlargest_tie)
qed

theorem top_n_stable_witness:
  "reviews_count tie_first = Some 100 \<and> reviews_count tie_second = Some 100
   \<and> tie_first \<noteq> tie_second
   \<and> nlargest 1 reviews_count [tie_first, tie_second] = [tie_first]
   \<and> nlargest 1 reviews_count [tie_second, tie_first] = [tie_second]"
proof -
  have a: "reviews_count tie_first = Some 100" and b: "reviews_count tie_second = Some 100"
    and c: "tie_first \<noteq> tie_second"
    by (simp_all add: tie_first_def tie_second_def sample_book_def)
  have "reviews_count tie_first = Some 100 \<and> reviews_count tie_second = Some 100
        \<longrightarrow> nlargest 1 reviews_count [tie_first, tie_second] = [tie_first]"
    using top_n_stable [of 1 reviews_count "[tie_first, tie_second]" "[tie_first, tie_second]"
              tie_first tie_second]
    by (elim conjE)
  with a b have 1: "nlargest 1 reviews_count [tie_first, tie_second] = [tie_first]"
    by (elim impE) (rule conjI)
  have "reviews_count tie_second = Some 100 \<and> reviews_count tie_first = Some 100
        \<longrightarrow> nlargest 1 reviews_count [tie_second, tie_first] = [tie_second]"
    using top_n_stable [of 1 reviews_count "[tie_first, tie_second]" "[tie_first, tie_second]"
              tie_second tie_first]
    by (elim conjE)
  with a b have 2: "nlargest 1 reviews_count [tie_second, tie_first] = [tie_second]"
    by (elim impE) (rule conjI)
  show ?thesis
    by (intro conjI) (rule a b c 1 2)+
qed

end
